theory Spec2Isabelle
  imports Complex_Main "HOL-Library.Multiset"
begin

section \<open>JavaScript values\<close>

text \<open>
  The values that reach the CSV row: \<open>undefined\<close>, numbers (with \<open>NaN\<close> apart, since it
  is falsy), strings and \<open>Date\<close> objects (the epoch milliseconds they hold).
\<close>

datatype jsval = JUndefined | JNum real | JNaN | JStr string | JDate int

text \<open>Truthiness as the operator \<open>||\<close> tests it: an object such as a \<open>Date\<close> is always truthy.\<close>

fun truthy :: "jsval \<Rightarrow> bool" where
  "truthy JUndefined = False"
| "truthy (JNum r) = (r \<noteq> 0)"
| "truthy JNaN = False"
| "truthy (JStr s) = (s \<noteq> [])"
| "truthy (JDate t) = True"

text \<open>\<open>a || b\<close>\<close>

definition js_or :: "jsval \<Rightarrow> jsval \<Rightarrow> jsval" where
  "js_or a b = (if truthy a then a else b)"

definition nl :: char where
  "nl = CHR 0x0A"

section \<open>Messages of the computed stream\<close>

record level =
  price :: jsval
  amount :: jsval

record message =
  mtype :: string
  timestamp :: jsval
  localTimestamp :: jsval
  bids :: "level list"
  asks :: "level list"

text \<open>\<open>levels[0]\<close>: reading past the end of a JavaScript array gives \<open>undefined\<close>.\<close>

definition level0 :: "level list \<Rightarrow> level option" where
  "level0 ls = (case ls of [] \<Rightarrow> None | l # _ \<Rightarrow> Some l)"

text \<open>\<open>l?.price\<close> and \<open>l?.amount\<close>\<close>

definition opt_price :: "level option \<Rightarrow> jsval" where
  "opt_price lo = (case lo of None \<Rightarrow> JUndefined | Some l \<Rightarrow> price l)"

definition opt_amount :: "level option \<Rightarrow> jsval" where
  "opt_amount lo = (case lo of None \<Rightarrow> JUndefined | Some l \<Rightarrow> amount l)"

text \<open>The object \<open>data\<close> built in the loop of \<open>startSavingSnapshots\<close>.\<close>

record row_data =
  d_timestamp :: jsval
  d_localTimestamp :: jsval
  bid_price_0 :: jsval
  bid_amount_0 :: jsval
  ask_price_0 :: jsval
  ask_amount_0 :: jsval

definition extractData :: "message \<Rightarrow> row_data" where
  "extractData m =
     \<lparr> d_timestamp = timestamp m,
       d_localTimestamp = localTimestamp m,
       bid_price_0 = js_or (opt_price (level0 (bids m))) (JStr ''''),
       bid_amount_0 = js_or (opt_amount (level0 (bids m))) (JStr ''''),
       ask_price_0 = js_or (opt_price (level0 (asks m))) (JStr ''''),
       ask_amount_0 = js_or (opt_amount (level0 (asks m))) (JStr '''') \<rparr>"

section \<open>Libraries and environment\<close>

text \<open>
  The functions of \<open>tardis-dev\<close>, \<open>csv-stringify\<close> and \<open>path\<close> that the files call are not
  part of the repository: they are parameters of the model. A stream is the sequence of
  messages it yields until it ends (one that throws on the way is not modelled); \<open>None\<close>
  stands for a falsy value returned in place of a stream. \<open>computeBookSnapshots x ms d i\<close>
  is \<open>compute(ms, computeBookSnapshots({ depth: d, interval: i }))\<close>, and the second
  argument of \<open>stringify\<close> is its option \<open>header\<close>.
\<close>

datatype normalizer = NormalizeBookChanges | NormalizeTrades

record replay_options =
  ro_exchange :: string
  ro_symbols :: "string list"
  ro_from :: string
  ro_to :: string

record stream_options =
  so_exchange :: string
  so_symbols :: "string list"

record ext =
  path_join :: "string \<Rightarrow> string \<Rightarrow> string"
  replayNormalized :: "replay_options \<Rightarrow> normalizer \<Rightarrow> message list option"
  streamNormalized :: "stream_options \<Rightarrow> normalizer \<Rightarrow> message list option"
  computeBookSnapshots :: "message list \<Rightarrow> nat \<Rightarrow> nat \<Rightarrow> message list"
  stringify :: "jsval list list \<Rightarrow> bool \<Rightarrow> string"

text \<open>
  What the surroundings decide: the error a write meets, and the clock. \<open>appendFault n\<close> is
  the error handed to the callback of the \<open>n\<close>-th call of \<open>fs.appendFile\<close>, \<open>writeFault p\<close>
  the error \<open>fs.writeFileSync\<close> throws on path \<open>p\<close>, \<open>mkdirFault p\<close> the one of
  \<open>fs.mkdirSync\<close>, and \<open>isoTime n\<close> what the \<open>n\<close>-th \<open>new Date().toISOString()\<close> returns.
\<close>

record env =
  appendFault :: "nat \<Rightarrow> string option"
  writeFault :: "string \<Rightarrow> string option"
  mkdirFault :: "string \<Rightarrow> string option"
  isoTime :: "nat \<Rightarrow> string"

text \<open>
  The state outside the objects: files and directories, the chunks written to \<open>logStream\<close>,
  the lines printed by \<open>console.log\<close> and by \<open>console.error\<close>, and the number of clock
  readings. \<open>fs.appendFile\<close> is asynchronous and the code never awaits it: \<open>appendCalls\<close>
  are the calls made so far (path and data, in the order of the calls), \<open>pending\<close> the
  calls still in flight, each with its number among the calls, and \<open>completed\<close> the
  calls that have finished, in the order in which they finished.
\<close>

record world =
  files :: "string \<rightharpoonup> string"
  dirs :: "string set"
  logStream :: "string list"
  console :: "string list"
  consoleErr :: "string list"
  appendCalls :: "(string \<times> string) list"
  pending :: "(nat \<times> string \<times> string) list"
  completed :: "(nat \<times> string \<times> string) list"
  clockReads :: nat

definition existsSync :: "string \<Rightarrow> world \<Rightarrow> bool" where
  "existsSync p w = (files w p \<noteq> None \<or> p \<in> dirs w)"

definition writeFileSync :: "env \<Rightarrow> string \<Rightarrow> string \<Rightarrow> world \<Rightarrow> string + world" where
  "writeFileSync e p d w =
     (case writeFault e p of
        Some err \<Rightarrow> Inl err
      | None \<Rightarrow> Inr (w\<lparr>files := (files w)(p \<mapsto> d)\<rparr>))"

text \<open>\<open>fs.mkdirSync(p, { recursive: true })\<close>; the ancestors it creates too are not tracked.\<close>

definition mkdirSync :: "env \<Rightarrow> string \<Rightarrow> world \<Rightarrow> string + world" where
  "mkdirSync e p w =
     (case mkdirFault e p of
        Some err \<Rightarrow> Inl err
      | None \<Rightarrow> Inr (w\<lparr>dirs := insert p (dirs w)\<rparr>))"

text \<open>
  \<open>fs.appendFile(p, d, callback)\<close> returns at once: the call is recorded and stays in
  flight. The file changes, and the callback runs, when the call completes.
\<close>

definition appendFile :: "string \<Rightarrow> string \<Rightarrow> world \<Rightarrow> world" where
  "appendFile p d w =
     w\<lparr>appendCalls := appendCalls w @ [(p, d)],
       pending := pending w @ [(length (appendCalls w), p, d)]\<rparr>"

definition console_log :: "string \<Rightarrow> world \<Rightarrow> world" where
  "console_log s w = w\<lparr>console := console w @ [s]\<rparr>"

definition console_error :: "string \<Rightarrow> world \<Rightarrow> world" where
  "console_error s w = w\<lparr>consoleErr := consoleErr w @ [s]\<rparr>"

section \<open>OrderBookSnapshotSaver\<close>

definition csvHeaderLine :: string where
  "csvHeaderLine =
     ''timestamp,localTimestamp,bid_price_0,bid_amount_0,ask_price_0,ask_amount_0'' @ [nl]"

text \<open>\<open>logMessage\<close>: one chunk \<open>[timestamp] message\<close> and a newline to the log stream.\<close>

definition logMessage :: "env \<Rightarrow> string \<Rightarrow> world \<Rightarrow> world" where
  "logMessage e msg w =
     w\<lparr>logStream := logStream w @ [''['' @ isoTime e (clockReads w) @ ''] '' @ msg @ [nl]],
       clockReads := Suc (clockReads w)\<rparr>"

definition csvRow :: "ext \<Rightarrow> row_data \<Rightarrow> string" where
  "csvRow x d =
     stringify x
       [[d_timestamp d, d_localTimestamp d, bid_price_0 d, bid_amount_0 d,
         ask_price_0 d, ask_amount_0 d]] False"

text \<open>The arrow function handed to \<open>fs.appendFile\<close>; \<open>err\<close> is \<open>None\<close> on success.\<close>

definition appendCallback :: "env \<Rightarrow> string option \<Rightarrow> world \<Rightarrow> world" where
  "appendCallback e err w =
     (case err of
        Some er \<Rightarrow> logMessage e (''Error writing to CSV file: '' @ er) w
      | None \<Rightarrow> logMessage e ''Processed and saved CSV row'' w)"

text \<open>
  The completion of the call number \<open>k\<close>, if it is in flight: on success the data goes
  to the end of the file, which is created when missing, and a failed append leaves the
  file as it was; then the callback runs.
\<close>

definition completeAppend :: "env \<Rightarrow> nat \<Rightarrow> world \<Rightarrow> world" where
  "completeAppend e k w =
     (case find (\<lambda>c. fst c = k) (pending w) of
        None \<Rightarrow> w
      | Some (k', p, d) \<Rightarrow>
          (let w1 = w\<lparr>pending := remove1 (k', p, d) (pending w),
                      completed := completed w @ [(k', p, d)]\<rparr>
           in case appendFault e k' of
                Some err \<Rightarrow> appendCallback e (Some err) w1
              | None \<Rightarrow>
                  appendCallback e None
                    (w1\<lparr>files :=
                          (files w1)(p \<mapsto> (case files w1 p of None \<Rightarrow> d | Some c \<Rightarrow> c @ d))\<rparr>)))"

fun settle :: "env \<Rightarrow> nat list \<Rightarrow> world \<Rightarrow> world" where
  "settle e [] w = w"
| "settle e (k # ks) w = settle e ks (completeAppend e k w)"

text \<open>The body of the loop for one \<open>book_snapshot\<close> message: the append is issued.\<close>

definition saveRow :: "ext \<Rightarrow> string \<Rightarrow> message \<Rightarrow> world \<Rightarrow> world" where
  "saveRow x p m w = appendFile p (csvRow x (extractData m)) w"

text \<open>
  The \<open>for await\<close> loop over the messages the stream yields. Callbacks can only run
  while the loop waits for the next message, so the schedule \<open>sched\<close> lists, for each
  message in turn, the numbers of the appends that complete after the loop has handled
  it, in the order in which they complete; what is left of the schedule when the stream
  ends completes after the loop.
\<close>

fun saveLoop ::
  "ext \<Rightarrow> env \<Rightarrow> string \<Rightarrow> nat list list \<Rightarrow> message list \<Rightarrow> world \<Rightarrow> world"
where
  "saveLoop x e p sched [] w = settle e (concat sched) w"
| "saveLoop x e p sched (m # ms) w =
     (let w' = (if mtype m = ''book_snapshot'' then saveRow x p m w else w)
      in case sched of
           [] \<Rightarrow> saveLoop x e p [] ms w'
         | ks # sched' \<Rightarrow> saveLoop x e p sched' ms (settle e ks w'))"

subsection \<open>The replay saver (\<open>data_fetch/orderbook_snapshot_saver.js\<close>)\<close>

record saver =
  start_date :: string
  exchange :: string
  symbol :: string
  filePath :: string
  stream :: "message list option"
  to_date :: string

definition constructor ::
  "ext \<Rightarrow> env \<Rightarrow> string \<Rightarrow> string \<Rightarrow> string \<Rightarrow> string \<Rightarrow> string \<Rightarrow> world \<Rightarrow> string + (saver \<times> world)"
where
  "constructor x e exch smb fp dataDir sd w =
     (let this = \<lparr> start_date = sd, exchange = exch, symbol = smb,
                   filePath = path_join x dataDir fp, stream = None,
                   to_date = ''2019-11-18'' \<rparr> in
      if \<not> existsSync (filePath this) w then
        (case writeFileSync e (filePath this) csvHeaderLine w of
           Inl err \<Rightarrow> Inl err
         | Inr w' \<Rightarrow> Inr (this, w'))
      else Inr (this, w))"

definition initializeStream :: "ext \<Rightarrow> saver \<Rightarrow> message list option \<times> saver" where
  "initializeStream x this =
     (let this' = this\<lparr>stream :=
            replayNormalized x
              \<lparr> ro_exchange = exchange this, ro_symbols = [symbol this],
                ro_from = start_date this, ro_to = to_date this \<rparr>
              NormalizeBookChanges\<rparr>
      in (stream this', this'))"

definition startSavingSnapshots ::
  "ext \<Rightarrow> env \<Rightarrow> nat list list \<Rightarrow> saver \<Rightarrow> world \<Rightarrow> saver \<times> world"
where
  "startSavingSnapshots x e sched this w =
     (case initializeStream x this of (messages, this') \<Rightarrow>
        (let w1 = console_log (symbol this') w;
             w2 = console_log (''from date '' @ start_date this') w1;
             w3 = console_log (''to date '' @ to_date this') w2;
             w4 = console_log (''exchange '' @ exchange this') w3
         in case messages of
              None \<Rightarrow>
                (this', logMessage e
                   ''Stream not initialized. Call initializeStream() before starting.'' w4)
            | Some ms \<Rightarrow>
                (this', saveLoop x e (filePath this') sched
                          (computeBookSnapshots x ms 1 (60 * 1000)) w4)))"

subsection \<open>The live saver (\<open>unnamed/part_000\<close>)\<close>

record live_saver =
  l_exchange :: string
  l_symbol :: string
  l_filePath :: string
  l_stream :: "message list option"

definition constructor_live ::
  "ext \<Rightarrow> env \<Rightarrow> string \<Rightarrow> string \<Rightarrow> string \<Rightarrow> string \<Rightarrow> world \<Rightarrow> string + (live_saver \<times> world)"
where
  "constructor_live x e dataDir exch smb fp w =
     (let this = \<lparr> l_exchange = exch, l_symbol = smb,
                   l_filePath = path_join x dataDir fp, l_stream = None \<rparr> in
      if \<not> existsSync (l_filePath this) w then
        (case writeFileSync e (l_filePath this) csvHeaderLine w of
           Inl err \<Rightarrow> Inl err
         | Inr w' \<Rightarrow> Inr (this, w'))
      else Inr (this, w))"

text \<open>
  Here \<open>initializeStream\<close> stores the normalized stream in the object and returns the
  computed one (depth 1, interval 60000).
\<close>

definition initializeStream_live :: "ext \<Rightarrow> live_saver \<Rightarrow> message list option \<times> live_saver" where
  "initializeStream_live x this =
     (let this' = this\<lparr>l_stream :=
            streamNormalized x
              \<lparr> so_exchange = l_exchange this, so_symbols = [l_symbol this] \<rparr>
              NormalizeBookChanges\<rparr>
      in (map_option (\<lambda>ms. computeBookSnapshots x ms 1 (60 * 1000)) (l_stream this'), this'))"

text \<open>
  The test of \<open>this.stream\<close> comes first, the call of \<open>initializeStream\<close> after it.
  Iterating over the computation of a missing stream throws, so the promise is rejected:
  \<open>Inl\<close>.
\<close>

definition startSavingSnapshots_live ::
  "ext \<Rightarrow> env \<Rightarrow> nat list list \<Rightarrow> live_saver \<Rightarrow> world \<Rightarrow> string + (live_saver \<times> world)"
where
  "startSavingSnapshots_live x e sched this w =
     (if l_stream this = None then
        Inr (this, logMessage e
               ''Stream not initialized. Call initializeStream() before starting.'' w)
      else
        (case initializeStream_live x this of
           (None, this') \<Rightarrow> Inl ''TypeError''
         | (Some ms, this') \<Rightarrow> Inr (this', saveLoop x e (l_filePath this') sched ms w)))"

subsection \<open>The script around the live saver\<close>

text \<open>
  The top level of \<open>unnamed/part_000\<close>: the data directory is created when missing, then
  a saver for \<open>bitmex\<close>, \<open>XBTUSD\<close> is built and \<open>startSavingSnapshots\<close> is called on it.
  \<open>dataDir\<close> is the path the module computes from \<open>__dirname\<close>.
\<close>

definition ensureDataDir :: "env \<Rightarrow> string \<Rightarrow> world \<Rightarrow> string + world" where
  "ensureDataDir e dataDir w = (if \<not> existsSync dataDir w then mkdirSync e dataDir w else Inr w)"

definition liveScript ::
  "ext \<Rightarrow> env \<Rightarrow> nat list list \<Rightarrow> string \<Rightarrow> world \<Rightarrow> string + (live_saver \<times> world)"
where
  "liveScript x e sched dataDir w =
     (case ensureDataDir e dataDir w of
        Inl err \<Rightarrow> Inl err
      | Inr w1 \<Rightarrow>
          (case constructor_live x e dataDir ''bitmex'' ''XBTUSD'' ''orderbook_snapshot_data.csv'' w1 of
             Inl err \<Rightarrow> Inl err
           | Inr (snapshotSaver, w2) \<Rightarrow> startSavingSnapshots_live x e sched snapshotSaver w2))"

section \<open>The token-list scripts\<close>

text \<open>
  \<open>data_fetch/binance_token_list.js\<close> and \<open>unnamed/part_001\<close> differ in the exchange
  queried and in the output paths only, so one function takes these as arguments.
  \<open>getExchangeDetails\<close> is the query of \<open>tardis-dev\<close> (\<open>Inl\<close> when the promise is
  rejected) and \<open>dirname\<close> the value of \<open>__dirname\<close>.
\<close>

record api_symbol =
  api_id :: string
  api_type :: string
  api_availableSince :: string
  api_availableTo :: "string option"

record exchange_details =
  availableSymbols :: "api_symbol list"

record symbol_info =
  sym_id :: string
  sym_type :: string
  sym_availableSince :: string

text \<open>\<open>xs.join(sep)\<close>\<close>

fun join :: "string \<Rightarrow> string list \<Rightarrow> string" where
  "join sep [] = []"
| "join sep [s] = s"
| "join sep (s # t # ts) = s @ sep @ join sep (t # ts)"

definition symbolLine :: "symbol_info \<Rightarrow> string" where
  "symbolLine s = sym_id s @ '','' @ sym_type s @ '','' @ sym_availableSince s"

definition pickSymbol :: "api_symbol \<Rightarrow> symbol_info" where
  "pickSymbol s =
     \<lparr> sym_id = api_id s, sym_type = api_type s, sym_availableSince = api_availableSince s \<rparr>"

definition csvContentOf :: "exchange_details \<Rightarrow> string" where
  "csvContentOf d =
     (let syms = map pickSymbol (availableSymbols d);
          csvHeader = ''id,type,availableSince'' @ [nl];
          csvRows = join [nl] (map symbolLine syms)
      in csvHeader @ csvRows)"

text \<open>
  The \<open>try\<close> block: \<open>Inl\<close> is an exception, with the state reached when it was thrown.
\<close>

definition tokenListTry ::
  "ext \<Rightarrow> env \<Rightarrow> (string \<Rightarrow> string + exchange_details) \<Rightarrow> string \<Rightarrow>
   string \<Rightarrow> string \<Rightarrow> string \<Rightarrow> world \<Rightarrow> (string \<times> world) + world"
where
  "tokenListTry x e getExchangeDetails dirname exchName relDir fileName w =
     (case getExchangeDetails exchName of
        Inl err \<Rightarrow> Inl (err, w)
      | Inr details \<Rightarrow>
          (let csvContent = csvContentOf details;
               outputDir = path_join x dirname relDir;
               fpath = path_join x outputDir fileName
           in case (if \<not> existsSync outputDir w then mkdirSync e outputDir w else Inr w) of
                Inl err \<Rightarrow> Inl (err, w)
              | Inr w1 \<Rightarrow>
                  (case writeFileSync e fpath csvContent w1 of
                     Inl err \<Rightarrow> Inl (err, w1)
                   | Inr w2 \<Rightarrow>
                       Inr (console_log (''CSV file written successfully to '' @ fpath) w2))))"

text \<open>
  The whole function, with its \<open>catch\<close>; \<open>Inl\<close> would be an exception that leaves the
  function. Both scripts print the same text in the \<open>catch\<close>.
\<close>

definition tokenListScript ::
  "ext \<Rightarrow> env \<Rightarrow> (string \<Rightarrow> string + exchange_details) \<Rightarrow> string \<Rightarrow>
   string \<Rightarrow> string \<Rightarrow> string \<Rightarrow> world \<Rightarrow> string + world"
where
  "tokenListScript x e getExchangeDetails dirname exchName relDir fileName w =
     (case tokenListTry x e getExchangeDetails dirname exchName relDir fileName w of
        Inl (err, w') \<Rightarrow>
          Inr (console_error (''Error fetching Binance exchange details: '' @ err) w')
      | Inr w' \<Rightarrow> Inr w')"

definition checkBinanceSymbolAvailability ::
  "ext \<Rightarrow> env \<Rightarrow> (string \<Rightarrow> string + exchange_details) \<Rightarrow> string \<Rightarrow> world \<Rightarrow> string + world"
where
  "checkBinanceSymbolAvailability x e getExchangeDetails dirname w =
     tokenListScript x e getExchangeDetails dirname ''binance-futures''
       ''../data/uncleaned/binance_token_list'' ''binance_token_list.csv'' w"

definition checkBybitSymbolAvailability ::
  "ext \<Rightarrow> env \<Rightarrow> (string \<Rightarrow> string + exchange_details) \<Rightarrow> string \<Rightarrow> world \<Rightarrow> string + world"
where
  "checkBybitSymbolAvailability x e getExchangeDetails dirname w =
     tokenListScript x e getExchangeDetails dirname ''bybit''
       ''../data/uncleaned/bybit_token_list'' ''bybit_token_list.csv'' w"

section \<open>Notions used in the statements\<close>

text \<open>The lines of a text: \<open>s.split('\n')\<close>.\<close>

fun split_on :: "char \<Rightarrow> string \<Rightarrow> string list" where
  "split_on c [] = [[]]"
| "split_on c (a # s) =
     (if a = c then [] # split_on c s
      else (case split_on c s of [] \<Rightarrow> [[a]] | l # ls \<Rightarrow> (a # l) # ls))"

definition snapshots :: "message list \<Rightarrow> message list" where
  "snapshots ms = filter (\<lambda>m. mtype m = ''book_snapshot'') ms"

text \<open>The chunk the callback of the call number \<open>k\<close> logs at clock reading \<open>c\<close>.\<close>

definition callbackLine :: "env \<Rightarrow> nat \<Rightarrow> nat \<Rightarrow> string" where
  "callbackLine e k c =
     ''['' @ isoTime e c @ ''] ''
       @ (case appendFault e k of
            Some err \<Rightarrow> ''Error writing to CSV file: '' @ err
          | None \<Rightarrow> ''Processed and saved CSV row'')
       @ [nl]"

text \<open>The chunks logged by a sequence of completions that starts at clock reading \<open>c\<close>.\<close>

fun callbackLines :: "env \<Rightarrow> nat \<Rightarrow> (nat \<times> string \<times> string) list \<Rightarrow> string list" where
  "callbackLines e c [] = []"
| "callbackLines e c (a # cs) = callbackLine e (fst a) c # callbackLines e (Suc c) cs"

text \<open>
  What a sequence of completions adds to the file \<open>q\<close>: the data of the appends to \<open>q\<close>
  that met no error, in the order of completion.
\<close>

fun landed :: "env \<Rightarrow> string \<Rightarrow> (nat \<times> string \<times> string) list \<Rightarrow> string" where
  "landed e q [] = []"
| "landed e q ((k, p, d) # cs) =
     (if p = q \<and> appendFault e k = None then d else []) @ landed e q cs"

definition content :: "world \<Rightarrow> string \<Rightarrow> string" where
  "content w p = (case files w p of None \<Rightarrow> [] | Some c \<Rightarrow> c)"

text \<open>
  The line of one symbol as the query returns it, the \<open>outputDir\<close> and \<open>filePath\<close> of each
  script, and the condition under which neither \<open>fs.mkdirSync\<close> nor \<open>fs.writeFileSync\<close>
  throws.
\<close>

definition apiLine :: "api_symbol \<Rightarrow> string" where
  "apiLine s = api_id s @ '','' @ api_type s @ '','' @ api_availableSince s"

definition binanceOutputDir :: "ext \<Rightarrow> string \<Rightarrow> string" where
  "binanceOutputDir x dirname = path_join x dirname ''../data/uncleaned/binance_token_list''"

definition binanceFilePath :: "ext \<Rightarrow> string \<Rightarrow> string" where
  "binanceFilePath x dirname = path_join x (binanceOutputDir x dirname) ''binance_token_list.csv''"

definition bybitOutputDir :: "ext \<Rightarrow> string \<Rightarrow> string" where
  "bybitOutputDir x dirname = path_join x dirname ''../data/uncleaned/bybit_token_list''"

definition bybitFilePath :: "ext \<Rightarrow> string \<Rightarrow> string" where
  "bybitFilePath x dirname = path_join x (bybitOutputDir x dirname) ''bybit_token_list.csv''"

definition writable :: "env \<Rightarrow> world \<Rightarrow> string \<Rightarrow> string \<Rightarrow> bool" where
  "writable e w dir fp =
     ((existsSync dir w \<or> mkdirFault e dir = None) \<and> writeFault e fp = None)"

text \<open>
  Between two states: the calls of \<open>fs.appendFile\<close> made, their data, and the
  completions.
\<close>

definition newCalls :: "world \<Rightarrow> world \<Rightarrow> (string \<times> string) list" where
  "newCalls w w' = drop (length (appendCalls w)) (appendCalls w')"

definition newRows :: "world \<Rightarrow> world \<Rightarrow> string list" where
  "newRows w w' = map snd (drop (length (appendCalls w)) (appendCalls w'))"

definition newCompleted :: "world \<Rightarrow> world \<Rightarrow> (nat \<times> string \<times> string) list" where
  "newCompleted w w' = drop (length (completed w)) (completed w')"

text \<open>What the completion of the call number \<open>k\<close> completes: that call, if it is in flight.\<close>

definition completing :: "nat \<Rightarrow> world \<Rightarrow> (nat \<times> string \<times> string) list" where
  "completing k w = (case find (\<lambda>c. fst c = k) (pending w) of None \<Rightarrow> [] | Some c \<Rightarrow> [c])"

text \<open>
  The state \<open>w'\<close> comes after \<open>w\<close> by completions \<open>cs\<close>: they are added to the
  completed calls, each logs its chunk at its clock reading, and the file \<open>q\<close> grows by
  the data that landed in it.
\<close>

definition follows ::
  "env \<Rightarrow> string \<Rightarrow> (nat \<times> string \<times> string) list \<Rightarrow> world \<Rightarrow> world \<Rightarrow> bool"
where
  "follows e q cs w w' =
     (completed w' = completed w @ cs
      \<and> logStream w' = logStream w @ callbackLines e (clockReads w) cs
      \<and> clockReads w' = clockReads w + length cs
      \<and> content w' q = content w q @ landed e q cs)"

text \<open>
  Every call made so far is either in flight or completed, once: this holds when a
  process starts and is kept by every call and every completion.
\<close>

definition accounted :: "world \<Rightarrow> bool" where
  "accounted w =
     (mset (pending w) + mset (completed w) = mset (List.enumerate 0 (appendCalls w)))"


section \<open>Sample inputs\<close>

text \<open>
  Concrete libraries, surroundings and messages on which the results below are evaluated.
  \<open>sampleExt\<close> renders a record as its cells joined by commas; its rendering of numbers
  and dates is a placeholder.
\<close>

definition sampleCast :: "jsval \<Rightarrow> string" where
  "sampleCast v = (case v of JStr s \<Rightarrow> s | JDate t \<Rightarrow> ''date'' | JNum r \<Rightarrow> ''num'' | _ \<Rightarrow> [])"

definition sampleSnapshot :: message where
  "sampleSnapshot =
     \<lparr> mtype = ''book_snapshot'', timestamp = JDate 60000, localTimestamp = JDate 60007,
       bids = [], asks = [\<lparr> price = JNum 101, amount = JNum 3 \<rparr>] \<rparr>"

definition sampleChange :: message where
  "sampleChange =
     \<lparr> mtype = ''book_change'', timestamp = JDate 59990, localTimestamp = JDate 59999,
       bids = [], asks = [\<lparr> price = JNum 101, amount = JNum 3 \<rparr>] \<rparr>"

definition zeroPriceSnapshot :: message where
  "zeroPriceSnapshot =
     \<lparr> mtype = ''book_snapshot'', timestamp = JDate 60000, localTimestamp = JDate 60007,
       bids = [\<lparr> price = JNum 0, amount = JNum 5 \<rparr>], asks = [] \<rparr>"

definition sampleExt :: ext where
  "sampleExt =
     \<lparr> path_join = (\<lambda>a b. a @ ''/'' @ b),
       replayNormalized = (\<lambda>opts n. Some [sampleChange]),
       streamNormalized = (\<lambda>opts n. Some [sampleChange]),
       computeBookSnapshots = (\<lambda>ms depth interval. ms @ [sampleSnapshot]),
       stringify = (\<lambda>rows header. concat (map (\<lambda>r. join '','' (map sampleCast r) @ [nl]) rows)) \<rparr>"

definition sampleEnv :: env where
  "sampleEnv =
     \<lparr> appendFault = (\<lambda>n. None), writeFault = (\<lambda>p. None), mkdirFault = (\<lambda>p. None),
       isoTime = (\<lambda>n. ''2024-01-01T00:00:00.000Z'') \<rparr>"

definition failingEnv :: env where
  "failingEnv =
     \<lparr> appendFault = (\<lambda>n. if n = 0 then Some ''Error: ENOSPC'' else None),
       writeFault = (\<lambda>p. None), mkdirFault = (\<lambda>p. None),
       isoTime = (\<lambda>n. if n = 0 then ''2024-01-01T00:00:00.000Z''
                       else ''2024-01-01T00:00:01.000Z'') \<rparr>"

definition world0 :: world where
  "world0 =
     \<lparr> files = Map.empty, dirs = {}, logStream = [], console = [], consoleErr = [],
       appendCalls = [], pending = [], completed = [], clockReads = 0 \<rparr>"



definition sampleLiveSaver :: live_saver where
  "sampleLiveSaver =
     \<lparr> l_exchange = ''bitmex'', l_symbol = ''XBTUSD'',
       l_filePath = ''data/orderbook_snapshot_data.csv'', l_stream = None \<rparr>"

text \<open>
  A schedule for a stream of three messages: nothing completes between the messages, and
  after the third the second append completes before the first.
\<close>

definition lateSchedule :: "nat list list" where
  "lateSchedule = [[], [], [1, 0]]"

definition sampleStream :: "message list" where
  "sampleStream = [sampleSnapshot, sampleChange, zeroPriceSnapshot]"



definition sampleDetails :: exchange_details where
  "sampleDetails =
     \<lparr> availableSymbols =
         [\<lparr> api_id = ''btcusdt'', api_type = ''perpetual'',
            api_availableSince = ''2019-11-17T00:00:00.000Z'', api_availableTo = None \<rparr>,
          \<lparr> api_id = ''ethusdt'', api_type = ''perpetual'',
            api_availableSince = ''2019-11-27T00:00:00.000Z'',
            api_availableTo = Some ''2023-01-01T00:00:00.000Z'' \<rparr>] \<rparr>"

definition sampleQuery :: "string \<Rightarrow> string + exchange_details" where
  "sampleQuery name = Inr sampleDetails"

definition failingQuery :: "string \<Rightarrow> string + exchange_details" where
  "failingQuery name = Inl ''Error: getaddrinfo ENOTFOUND api.tardis.dev''"

section \<open>Issuing and completing an append\<close>

lemma appendFile_fields:
  "files (appendFile p d w) = files w" "dirs (appendFile p d w) = dirs w"
  "logStream (appendFile p d w) = logStream w" "clockReads (appendFile p d w) = clockReads w"
  "completed (appendFile p d w) = completed w"
  "appendCalls (appendFile p d w) = appendCalls w @ [(p, d)]"
  "pending (appendFile p d w) = pending w @ [(length (appendCalls w), p, d)]"
  by (simp_all add: appendFile_def)

lemma logMessage_fields:
  "files (logMessage e s w) = files w" "appendCalls (logMessage e s w) = appendCalls w"
  "pending (logMessage e s w) = pending w" "completed (logMessage e s w) = completed w"
  "clockReads (logMessage e s w) = Suc (clockReads w)"
  "logStream (logMessage e s w) = logStream w @ [''['' @ isoTime e (clockReads w) @ ''] '' @ s @ [nl]]"
  by (simp_all add: logMessage_def)

lemma completing_cases:
  "completing k w = [] \<or> (\<exists>p d. completing k w = [(k, p, d)] \<and> (k, p, d) \<in> set (pending w))"
proof (cases "find (\<lambda>c. fst c = k) (pending w)")
  case None
  then show ?thesis by (simp add: completing_def)
next
  case (Some c)
  then have "fst c = k" "c \<in> set (pending w)"
    by (auto simp: find_Some_iff)
  with Some show ?thesis by (cases c) (auto simp: completing_def)
qed

lemma completeAppend_idle: "completing k w = [] \<Longrightarrow> completeAppend e k w = w"
  by (simp add: completing_def completeAppend_def split: option.splits)

lemma completeAppend_appendCalls: "appendCalls (completeAppend e k w) = appendCalls w"
  by (simp add: completeAppend_def appendCallback_def logMessage_def Let_def
      split: option.splits prod.splits)

lemma completeAppend_completed:
  "completed (completeAppend e k w) = completed w @ completing k w"
  by (simp add: completeAppend_def completing_def appendCallback_def logMessage_def Let_def
      split: option.splits prod.splits)

lemma completeAppend_pending:
  "mset (pending (completeAppend e k w)) + mset (completing k w) = mset (pending w)"
proof (cases "find (\<lambda>c. fst c = k) (pending w)")
  case None
  then show ?thesis by (simp add: completeAppend_def completing_def)
next
  case (Some c)
  then have "c \<in> set (pending w)" by (auto simp: find_Some_iff)
  with Some show ?thesis
    by (cases c)
       (simp add: completeAppend_def completing_def appendCallback_def logMessage_def Let_def
          split: option.splits)
qed

lemma completeAppend_clockReads:
  "clockReads (completeAppend e k w) = clockReads w + length (completing k w)"
  by (simp add: completeAppend_def completing_def appendCallback_def logMessage_def Let_def
      split: option.splits prod.splits)

lemma completeAppend_logStream:
  "logStream (completeAppend e k w) =
     logStream w @ callbackLines e (clockReads w) (completing k w)"
proof (cases "find (\<lambda>c. fst c = k) (pending w)")
  case None
  then show ?thesis by (simp add: completeAppend_def completing_def)
next
  case (Some c)
  then have "fst c = k" by (auto simp: find_Some_iff)
  with Some show ?thesis
    by (cases c)
       (simp add: completeAppend_def completing_def appendCallback_def logMessage_def Let_def
          callbackLine_def split: option.splits)
qed

lemma completeAppend_content:
  "content (completeAppend e k w) q = content w q @ landed e q (completing k w)"
proof (cases "find (\<lambda>c. fst c = k) (pending w)")
  case None
  then show ?thesis by (simp add: completeAppend_def completing_def)
next
  case (Some c)
  then have "fst c = k" by (auto simp: find_Some_iff)
  with Some show ?thesis
    by (cases c)
       (simp add: completeAppend_def completing_def appendCallback_def logMessage_def Let_def
          content_def split: option.splits)
qed

section \<open>Sequences of completions\<close>

lemma callbackLines_append:
  "callbackLines e c (as @ bs) = callbackLines e c as @ callbackLines e (c + length as) bs"
  by (induction as arbitrary: c) simp_all

lemma length_callbackLines: "length (callbackLines e c cs) = length cs"
  by (induction cs arbitrary: c) simp_all

lemma callbackLines_nth:
  "j < length cs \<Longrightarrow> callbackLines e c cs ! j = callbackLine e (fst (cs ! j)) (c + j)"
proof (induction cs arbitrary: c j)
  case Nil
  then show ?case by simp
next
  case (Cons a cs)
  then show ?case by (cases j) simp_all
qed

lemma landed_append: "landed e q (as @ bs) = landed e q as @ landed e q bs"
  by (induction as) auto

lemma follows_refl: "follows e q [] w w"
  by (simp add: follows_def)

lemma follows_trans:
  "follows e q as w w' \<Longrightarrow> follows e q bs w' w'' \<Longrightarrow> follows e q (as @ bs) w w''"
  by (simp add: follows_def callbackLines_append landed_append)

lemma follows_newCompleted: "follows e q cs w w' \<Longrightarrow> newCompleted w w' = cs"
  by (simp add: follows_def newCompleted_def)

lemma follows_appendFile: "follows e q [] w (appendFile p d w)"
  by (simp add: follows_def appendFile_fields content_def)

lemma follows_completeAppend: "follows e q (completing k w) w (completeAppend e k w)"
  by (simp add: follows_def completeAppend_completed completeAppend_logStream
      completeAppend_clockReads completeAppend_content)

lemma follows_settle: "\<exists>cs. follows e q cs w (settle e ks w)"
proof (induction ks arbitrary: w)
  case Nil
  show ?case using follows_refl by auto
next
  case (Cons k ks)
  from Cons.IH [of "completeAppend e k w"] obtain cs
    where "follows e q cs (completeAppend e k w) (settle e ks (completeAppend e k w))" ..
  with follows_completeAppend [of e q k w]
  have "follows e q (completing k w @ cs) w (settle e (k # ks) w)"
    by (simp add: follows_trans)
  then show ?case ..
qed

lemma follows_saveLoop: "\<exists>cs. follows e q cs w (saveLoop x e p sched ms w)"
proof (induction ms arbitrary: sched w)
  case Nil
  show ?case using follows_settle by simp
next
  case (Cons m ms)
  define w1 where "w1 = (if mtype m = ''book_snapshot'' then saveRow x p m w else w)"
  have f1: "follows e q [] w w1"
    by (simp add: w1_def saveRow_def follows_appendFile follows_refl)
  show ?case
  proof (cases sched)
    case Nil
    from Cons.IH [of w1 "[]"] obtain cs where "follows e q cs w1 (saveLoop x e p [] ms w1)" ..
    with f1 have "follows e q ([] @ cs) w (saveLoop x e p [] ms w1)" by (rule follows_trans)
    with Nil show ?thesis by (auto simp: w1_def Let_def)
  next
    case (Cons ks sched')
    from follows_settle obtain bs where f2: "follows e q bs w1 (settle e ks w1)" by blast
    from Cons.IH [of "settle e ks w1" sched'] obtain cs
      where f3: "follows e q cs (settle e ks w1) (saveLoop x e p sched' ms (settle e ks w1))" ..
    from f1 f2 have "follows e q ([] @ bs) w (settle e ks w1)" by (rule follows_trans)
    from this f3 have "follows e q (([] @ bs) @ cs) w (saveLoop x e p sched' ms (settle e ks w1))"
      by (rule follows_trans)
    with Cons show ?thesis by (auto simp: w1_def Let_def)
  qed
qed

lemma saveLoop_follows:
  "follows e q (newCompleted w (saveLoop x e p sched ms w)) w (saveLoop x e p sched ms w)"
  using follows_saveLoop [of e q w x p sched ms] follows_newCompleted by metis

section \<open>The calls the loop makes\<close>

lemma settle_appendCalls: "appendCalls (settle e ks w) = appendCalls w"
  by (induction ks arbitrary: w) (simp_all add: completeAppend_appendCalls)

lemma saveLoop_appendCalls:
  "appendCalls (saveLoop x e p sched ms w) =
     appendCalls w @ map (\<lambda>m. (p, csvRow x (extractData m))) (snapshots ms)"
proof (induction ms arbitrary: sched w)
  case Nil
  show ?case by (simp add: settle_appendCalls snapshots_def)
next
  case (Cons m ms)
  show ?case
    by (cases sched)
       (simp_all add: Cons.IH snapshots_def saveRow_def appendFile_fields settle_appendCalls Let_def)
qed


section \<open>Every call is in flight or completed\<close>

lemma accounted_appendFile: "accounted w \<Longrightarrow> accounted (appendFile p d w)"
  by (simp add: accounted_def appendFile_fields enumerate_append_eq)

lemma accounted_completeAppend:
  assumes "accounted w"
  shows "accounted (completeAppend e k w)"
proof -
  have "mset (pending (completeAppend e k w)) + mset (completed (completeAppend e k w)) =
        mset (pending (completeAppend e k w)) + mset (completing k w) + mset (completed w)"
    by (simp add: completeAppend_completed)
  also have "\<dots> = mset (pending w) + mset (completed w)"
    by (simp only: completeAppend_pending)
  finally show ?thesis using assms by (simp add: accounted_def completeAppend_appendCalls)
qed

lemma accounted_settle: "accounted w \<Longrightarrow> accounted (settle e ks w)"
  by (induction ks arbitrary: w) (simp_all add: accounted_completeAppend)

lemma accounted_saveLoop: "accounted w \<Longrightarrow> accounted (saveLoop x e p sched ms w)"
proof (induction ms arbitrary: sched w)
  case Nil
  then show ?case by (simp add: accounted_settle)
next
  case (Cons m ms)
  then show ?case
    by (cases sched)
       (simp_all add: saveRow_def accounted_appendFile accounted_settle Let_def)
qed

lemma drained_completions:
  assumes "accounted w" and "pending w = []"
    and "pending (saveLoop x e p sched ms w) = []"
  shows "mset (newCompleted w (saveLoop x e p sched ms w)) =
           mset (List.enumerate (length (appendCalls w))
                   (map (\<lambda>m. (p, csvRow x (extractData m))) (snapshots ms)))"
proof -
  let ?w' = "saveLoop x e p sched ms w"
  have a': "accounted ?w'" using assms(1) by (rule accounted_saveLoop)
  have c: "completed ?w' = completed w @ newCompleted w ?w'"
    using saveLoop_follows [of e _ w x p sched ms] by (simp add: follows_def)
  from assms(1,2) have 1: "mset (completed w) = mset (List.enumerate 0 (appendCalls w))"
    by (simp add: accounted_def)
  from a' assms(3) have 2: "mset (completed ?w') = mset (List.enumerate 0 (appendCalls ?w'))"
    by (simp add: accounted_def)
  have 3: "mset (completed ?w') = mset (completed w) + mset (newCompleted w ?w')"
    by (subst c) simp
  have 4: "mset (List.enumerate 0 (appendCalls ?w')) =
      mset (List.enumerate 0 (appendCalls w))
        + mset (List.enumerate (length (appendCalls w))
                  (map (\<lambda>m. (p, csvRow x (extractData m))) (snapshots ms)))"
    by (simp add: saveLoop_appendCalls enumerate_append_eq)
  from 1 2 3 4 show ?thesis by simp
qed

section \<open>A sample run\<close>

text \<open>
  Two snapshot messages with another message between them; the first append fails, and
  the second append completes before the first.
\<close>

lemma sample_rows:
  "csvRow sampleExt (extractData sampleSnapshot) = ''date,date,,,num,num'' @ [nl]"
  "csvRow sampleExt (extractData zeroPriceSnapshot) = ''date,date,,num,,'' @ [nl]"
  by (simp_all add: sampleSnapshot_def zeroPriceSnapshot_def sampleExt_def csvRow_def
      extractData_def js_or_def level0_def opt_price_def opt_amount_def sampleCast_def)

lemma sample_run:
  "saveLoop sampleExt failingEnv ''a.csv'' lateSchedule sampleStream world0 =
     \<lparr> files = [''a.csv'' \<mapsto> ''date,date,,num,,'' @ [nl]], dirs = {},
       logStream =
         [''[2024-01-01T00:00:00.000Z] Processed and saved CSV row'' @ [nl],
          ''[2024-01-01T00:00:01.000Z] Error writing to CSV file: Error: ENOSPC'' @ [nl]],
       console = [], consoleErr = [],
       appendCalls =
         [(''a.csv'', ''date,date,,,num,num'' @ [nl]), (''a.csv'', ''date,date,,num,,'' @ [nl])],
       pending = [],
       completed =
         [(1, ''a.csv'', ''date,date,,num,,'' @ [nl]), (0, ''a.csv'', ''date,date,,,num,num'' @ [nl])],
       clockReads = 2 \<rparr>"
  by (simp add: sampleStream_def lateSchedule_def saveRow_def appendFile_def completeAppend_def
      appendCallback_def logMessage_def sample_rows failingEnv_def world0_def Let_def
      sampleSnapshot_def [THEN arg_cong [of _ _ mtype]]
      sampleChange_def [THEN arg_cong [of _ _ mtype]]
      zeroPriceSnapshot_def [THEN arg_cong [of _ _ mtype]])

section \<open>Starting a run\<close>

lemma console_log_fields:
  "files (console_log s w) = files w" "dirs (console_log s w) = dirs w"
  "logStream (console_log s w) = logStream w" "appendCalls (console_log s w) = appendCalls w"
  "clockReads (console_log s w) = clockReads w" "consoleErr (console_log s w) = consoleErr w"
  "pending (console_log s w) = pending w" "completed (console_log s w) = completed w"
  by (simp_all add: console_log_def)

lemma startSavingSnapshots_appendCalls:
  "appendCalls (snd (startSavingSnapshots x e sched this w)) =
     appendCalls w @
       (case replayNormalized x
               \<lparr> ro_exchange = exchange this, ro_symbols = [symbol this],
                 ro_from = start_date this, ro_to = to_date this \<rparr> NormalizeBookChanges of
          None \<Rightarrow> []
        | Some ms \<Rightarrow>
            map (\<lambda>m. (filePath this, csvRow x (extractData m)))
                (snapshots (computeBookSnapshots x ms 1 60000)))"
  by (simp add: startSavingSnapshots_def initializeStream_def Let_def saveLoop_appendCalls
      console_log_fields logMessage_def split: option.splits)



lemma constructor_live_result:
  assumes "constructor_live x e dataDir exch smb fp w = Inr (this, w1)"
  shows "l_filePath this = path_join x dataDir fp \<and> l_stream this = None"
    and "\<not> existsSync (l_filePath this) w \<Longrightarrow>
           w1 = w\<lparr>files := (files w)(l_filePath this \<mapsto> csvHeaderLine)\<rparr>"
    and "existsSync (l_filePath this) w \<Longrightarrow> w1 = w"
    and "existsSync (l_filePath this) w1"
  using assms
  by (auto simp: constructor_live_def Let_def writeFileSync_def existsSync_def
      split: if_splits option.splits)


lemma saveLoop_newCalls:
  "newCalls w (saveLoop x e p sched ms w) =
     map (\<lambda>m. (p, csvRow x (extractData m))) (snapshots ms)"
  by (simp add: newCalls_def saveLoop_appendCalls)






lemma startSavingSnapshots_live_fresh:
  assumes "constructor_live x e dataDir exch smb fp w = Inr (this, w1)"
  shows "startSavingSnapshots_live x e' sched this w1 =
           Inr (this, logMessage e'
                  ''Stream not initialized. Call initializeStream() before starting.'' w1)"
  using constructor_live_result(1) [OF assms] by (simp add: startSavingSnapshots_live_def)

text \<open>The cells of a side, whatever the first level holds.\<close>

lemma extractData_cells:
  "bid_price_0 (extractData m) =
     (case bids m of [] \<Rightarrow> JStr '''' | b # bs \<Rightarrow> if truthy (price b) then price b else JStr '''')"
  "bid_amount_0 (extractData m) =
     (case bids m of [] \<Rightarrow> JStr '''' | b # bs \<Rightarrow> if truthy (amount b) then amount b else JStr '''')"
  "ask_price_0 (extractData m) =
     (case asks m of [] \<Rightarrow> JStr '''' | a # as \<Rightarrow> if truthy (price a) then price a else JStr '''')"
  "ask_amount_0 (extractData m) =
     (case asks m of [] \<Rightarrow> JStr '''' | a # as \<Rightarrow> if truthy (amount a) then amount a else JStr '''')"
  by (simp_all add: extractData_def level0_def opt_price_def opt_amount_def js_or_def
      split: list.splits)

section \<open>The token lists\<close>

lemma tokenListScript_fetch_fails:
  "g ex = Inl err \<Longrightarrow>
   tokenListScript x e g dn ex rd fn w =
     Inr (console_error (''Error fetching Binance exchange details: '' @ err) w)"
  by (simp add: tokenListScript_def tokenListTry_def)

lemma tokenListScript_returns: "\<exists>w'. tokenListScript x e g dn ex rd fn w = Inr w'"
  by (simp add: tokenListScript_def split: sum.splits prod.splits)

lemma split_on_no_sep: "c \<notin> set s \<Longrightarrow> split_on c s = [s]"
  by (induction s) auto

lemma split_on_append:
  "c \<notin> set s \<Longrightarrow> split_on c (s @ c # t) = s # split_on c t"
  by (induction s) auto

lemma split_on_join:
  "ls \<noteq> [] \<Longrightarrow> \<forall>l \<in> set ls. c \<notin> set l \<Longrightarrow> split_on c (join [c] ls) = ls"
proof (induction "[c]" ls rule: join.induct)
  case 1
  then show ?case by simp
next
  case (2 s)
  then show ?case by (simp add: split_on_no_sep)
next
  case (3 s t ts)
  then show ?case by (simp add: split_on_append)
qed

lemma tokenListScript_success:
  assumes "g ex = Inr d"
    and "writable e w (path_join x dn rd) (path_join x (path_join x dn rd) fn)"
  shows "\<exists>w'. tokenListScript x e g dn ex rd fn w = Inr w'
           \<and> files w' (path_join x (path_join x dn rd) fn) = Some (csvContentOf d)
           \<and> consoleErr w' = consoleErr w"
  using assms
  by (auto simp: tokenListTry_def tokenListScript_def Let_def writeFileSync_def mkdirSync_def
      console_log_def writable_def split: sum.splits option.splits if_splits)

lemma nl_not_in_header: "nl \<notin> set ''id,type,availableSince''"
  by (simp add: nl_def)

lemma symbolLine_pickSymbol: "symbolLine (pickSymbol s) = apiLine s"
  by (simp add: symbolLine_def pickSymbol_def apiLine_def)

lemma csvContentOf_apiLine:
  "csvContentOf d = ''id,type,availableSince'' @ [nl] @ join [nl] (map apiLine (availableSymbols d))"
  by (simp add: csvContentOf_def symbolLine_pickSymbol comp_def)

lemma csvContentOf_split:
  assumes "availableSymbols d \<noteq> []"
    and "\<forall>s \<in> set (availableSymbols d). nl \<notin> set (apiLine s)"
  shows "split_on nl (csvContentOf d) = ''id,type,availableSince'' # map apiLine (availableSymbols d)"
proof -
  have "split_on nl (join [nl] (map apiLine (availableSymbols d))) = map apiLine (availableSymbols d)"
    using assms by (intro split_on_join) auto
  moreover have "split_on nl (''id,type,availableSince'' @ nl # join [nl] (map apiLine (availableSymbols d))) =
      ''id,type,availableSince'' # split_on nl (join [nl] (map apiLine (availableSymbols d)))"
    using nl_not_in_header by (rule split_on_append)
  ultimately show ?thesis by (simp add: csvContentOf_apiLine)
qed

section \<open>A new replay saver runs the loop\<close>

text \<open>
  In \<open>data_fetch/orderbook_snapshot_saver.js\<close> the stream is requested first, from the
  \<open>start_date\<close> given to the constructor to the date the constructor fixes, and the
  diagnostic is logged only when the request returns nothing; otherwise every snapshot
  message of the computed stream gets its call of \<open>fs.appendFile\<close>.
\<close>

lemma constructor_fields:
  assumes "constructor x e exch smb fp dataDir sd w = Inr (this, w1)"
  shows "exchange this = exch \<and> symbol this = smb \<and> start_date this = sd
         \<and> to_date this = ''2019-11-18''"
  using assms
  by (auto simp: constructor_def Let_def split: if_splits sum.splits)

lemma new_replay_saver_runs_loop:
  assumes "constructor x e exch smb fp dataDir sd w = Inr (this, w1)"
    and "replayNormalized x
           \<lparr> ro_exchange = exch, ro_symbols = [smb], ro_from = sd, ro_to = ''2019-11-18'' \<rparr>
           NormalizeBookChanges = Some ms"
  shows "newRows w1 (snd (startSavingSnapshots x e' sched this w1)) =
           map (\<lambda>m. csvRow x (extractData m)) (snapshots (computeBookSnapshots x ms 1 60000))"
  using constructor_fields [OF assms(1)] assms(2)
  by (simp add: newRows_def startSavingSnapshots_appendCalls comp_def)

lemma new_replay_saver_early_return:
  assumes "constructor x e exch smb fp dataDir sd w = Inr (this, w1)"
    and "replayNormalized x
           \<lparr> ro_exchange = exch, ro_symbols = [smb], ro_from = sd, ro_to = ''2019-11-18'' \<rparr>
           NormalizeBookChanges = None"
  shows "newRows w1 (snd (startSavingSnapshots x e' sched this w1)) = []
         \<and> logStream (snd (startSavingSnapshots x e' sched this w1)) =
             logStream w1 @ [''['' @ isoTime e' (clockReads w1)
               @ ''] Stream not initialized. Call initializeStream() before starting.'' @ [nl]]"
  using constructor_fields [OF assms(1)] assms(2)
  by (simp add: newRows_def startSavingSnapshots_appendCalls startSavingSnapshots_def
      initializeStream_def logMessage_def console_log_fields)

section \<open>Results\<close>

text \<open>
  C2. A newly constructed saver that is asked to start saving should request the stream and
  consume it. The live script does not: its constructor leaves \<open>stream\<close> at \<open>null\<close>,
  \<open>startSavingSnapshots\<close> tests that field before it calls \<open>initializeStream\<close>, and so the
  script logs the diagnostic and returns, with no append issued, although the stream
  would have yielded a snapshot message; no schedule changes that.
\<close>

theorem live_script_never_starts:
  "streamNormalized sampleExt \<lparr> so_exchange = ''bitmex'', so_symbols = [''XBTUSD''] \<rparr>
       NormalizeBookChanges = Some [sampleChange]
   \<and> snapshots (computeBookSnapshots sampleExt [sampleChange] 1 60000) = [sampleSnapshot]
   \<and> liveScript sampleExt sampleEnv sched ''data'' world0 =
       Inr (sampleLiveSaver,
            \<lparr> files = [''data/orderbook_snapshot_data.csv'' \<mapsto> csvHeaderLine],
              dirs = {''data''},
              logStream =
                [''[2024-01-01T00:00:00.000Z] Stream not initialized. Call initializeStream() before starting.''
                   @ [nl]],
              console = [], consoleErr = [], appendCalls = [], pending = [], completed = [],
              clockReads = 1 \<rparr>)"
  by (simp add: liveScript_def ensureDataDir_def mkdirSync_def existsSync_def
      constructor_live_def writeFileSync_def startSavingSnapshots_live_def logMessage_def
      sampleExt_def sampleEnv_def world0_def sampleLiveSaver_def snapshots_def
      sampleChange_def sampleSnapshot_def Let_def)

text \<open>
  C3. A present level's price should never be replaced by a default, but a first bid level
  with price 0 and amount 5 gets the empty string in \<open>bid_price_0\<close>: \<open>||\<close> takes the
  number 0 for a missing value. The row handed to \<open>fs.appendFile\<close> for such a snapshot
  message has an empty price cell next to the amount 5.
\<close>

theorem zero_price_written_empty:
  "mtype zeroPriceSnapshot = ''book_snapshot''
   \<and> bids zeroPriceSnapshot = [\<lparr> price = JNum 0, amount = JNum 5 \<rparr>]
   \<and> bid_price_0 (extractData zeroPriceSnapshot) = JStr ''''
   \<and> newCalls w (saveLoop x e p sched [sampleChange, zeroPriceSnapshot] w) =
       [(p, stringify x [[JDate 60000, JDate 60007, JStr '''', JNum 5, JStr '''', JStr '''']] False)]"
  by (unfold saveLoop_newCalls)
     (simp add: snapshots_def csvRow_def extractData_def level0_def opt_price_def
        opt_amount_def js_or_def zeroPriceSnapshot_def sampleChange_def)

text \<open>
  C4. When an append of a snapshot row completes with an error, its callback writes a
  chunk with the timestamp read at that moment and the error to the log; the loop goes
  on (every snapshot message of the stream gets its one call of \<open>fs.appendFile\<close>,
  whatever failed and whenever) and nothing is tried again (one call per snapshot
  message; one log chunk per completed call; the file receives the data of the appends
  that met no error, and nothing for the failed one). Once no append is in flight, each
  call of the loop has completed exactly once. Appends complete in any order.
\<close>

theorem append_failure_logged_loop_goes_on:
  assumes "j < length (newCompleted w (saveLoop x e p sched ms w))"
    and "newCompleted w (saveLoop x e p sched ms w) ! j = (k, q, d)"
    and "appendFault e k = Some err"
  shows "logStream (saveLoop x e p sched ms w) ! (length (logStream w) + j) =
           ''['' @ isoTime e (clockReads w + j) @ ''] Error writing to CSV file: '' @ err @ [nl]
         \<and> length (logStream (saveLoop x e p sched ms w)) =
             length (logStream w) + length (newCompleted w (saveLoop x e p sched ms w))
         \<and> appendCalls (saveLoop x e p sched ms w) =
             appendCalls w @ map (\<lambda>m. (p, csvRow x (extractData m))) (snapshots ms)
         \<and> content (saveLoop x e p sched ms w) q =
             content w q @ landed e q (newCompleted w (saveLoop x e p sched ms w))
         \<and> landed e q [(k, q, d)] = []
         \<and> (accounted w \<and> pending w = [] \<and> pending (saveLoop x e p sched ms w) = [] \<longrightarrow>
              mset (newCompleted w (saveLoop x e p sched ms w)) =
                mset (List.enumerate (length (appendCalls w))
                        (map (\<lambda>m. (p, csvRow x (extractData m))) (snapshots ms))))"
proof -
  let ?w' = "saveLoop x e p sched ms w"
  let ?cs = "newCompleted w ?w'"
  note f = saveLoop_follows [of e q w x p sched ms, unfolded follows_def]
  have "logStream ?w' ! (length (logStream w) + j) = callbackLines e (clockReads w) ?cs ! j"
    using f by (simp add: nth_append)
  also have "\<dots> = callbackLine e k (clockReads w + j)"
    using assms(1,2) by (simp add: callbackLines_nth)
  finally have 1: "logStream ?w' ! (length (logStream w) + j) =
      ''['' @ isoTime e (clockReads w + j) @ ''] Error writing to CSV file: '' @ err @ [nl]"
    using assms(3) by (simp add: callbackLine_def)
  have 2: "length (logStream ?w') = length (logStream w) + length ?cs"
    using f by (simp add: length_callbackLines)
  have 3: "content ?w' q = content w q @ landed e q ?cs" using f by simp
  have 4: "landed e q [(k, q, d)] = []" using assms(3) by simp
  from 1 2 3 4 show ?thesis
    using drained_completions [of w x e p sched ms] saveLoop_appendCalls [of x e p sched ms w]
    by blast
qed

theorem append_failure_logged_loop_goes_on_witness:
  "1 < length (newCompleted world0
         (saveLoop sampleExt failingEnv ''a.csv'' lateSchedule sampleStream world0))
   \<and> newCompleted world0
         (saveLoop sampleExt failingEnv ''a.csv'' lateSchedule sampleStream world0) ! 1 =
       (0, ''a.csv'', ''date,date,,,num,num'' @ [nl])
   \<and> appendFault failingEnv 0 = Some ''Error: ENOSPC''
   \<and> accounted world0 \<and> pending world0 = []
   \<and> pending (saveLoop sampleExt failingEnv ''a.csv'' lateSchedule sampleStream world0) = []
   \<and> logStream (saveLoop sampleExt failingEnv ''a.csv'' lateSchedule sampleStream world0) ! 1 =
       ''[2024-01-01T00:00:01.000Z] Error writing to CSV file: Error: ENOSPC'' @ [nl]
   \<and> length (logStream (saveLoop sampleExt failingEnv ''a.csv'' lateSchedule sampleStream world0))
       = 2
   \<and> content (saveLoop sampleExt failingEnv ''a.csv'' lateSchedule sampleStream world0) ''a.csv''
       = ''date,date,,num,,'' @ [nl]"
proof -
  have h: "1 < length (newCompleted world0
         (saveLoop sampleExt failingEnv ''a.csv'' lateSchedule sampleStream world0))"
    "newCompleted world0
         (saveLoop sampleExt failingEnv ''a.csv'' lateSchedule sampleStream world0) ! 1 =
       (0, ''a.csv'', ''date,date,,,num,num'' @ [nl])"
    "appendFault failingEnv 0 = Some ''Error: ENOSPC''"
    "accounted world0" "pending world0 = []"
    "pending (saveLoop sampleExt failingEnv ''a.csv'' lateSchedule sampleStream world0) = []"
    by (unfold sample_run newCompleted_def)
       (simp_all add: failingEnv_def accounted_def world0_def)
  from append_failure_logged_loop_goes_on [OF h(1) h(2) h(3)]
  have "logStream (saveLoop sampleExt failingEnv ''a.csv'' lateSchedule sampleStream world0)
          ! (length (logStream world0) + 1) =
        ''['' @ isoTime failingEnv (clockReads world0 + 1)
          @ ''] Error writing to CSV file: '' @ ''Error: ENOSPC'' @ [nl]"
    by blast
  then have "logStream (saveLoop sampleExt failingEnv ''a.csv'' lateSchedule sampleStream world0) ! 1 =
       ''[2024-01-01T00:00:01.000Z] Error writing to CSV file: Error: ENOSPC'' @ [nl]"
    by (simp add: world0_def failingEnv_def)
  moreover have "length (logStream
        (saveLoop sampleExt failingEnv ''a.csv'' lateSchedule sampleStream world0)) = 2"
    "content (saveLoop sampleExt failingEnv ''a.csv'' lateSchedule sampleStream world0) ''a.csv''
       = ''date,date,,num,,'' @ [nl]"
    by (unfold sample_run) (simp_all add: content_def)
  ultimately show ?thesis using h by blast
qed

text \<open>
  C5. The rows handed to \<open>fs.appendFile\<close> are a function of the messages alone: two runs
  of the loop over the same messages produce the same rows in the same order, whatever
  the files, the clock, the failures, the order of the completions and the destination
  path are; and so do two runs of \<open>startSavingSnapshots\<close> of savers with the same
  exchange, symbol and dates.
\<close>

theorem rows_depend_on_messages_only:
  "newRows w1 (saveLoop x e1 p1 sched1 ms w1) = map (\<lambda>m. csvRow x (extractData m)) (snapshots ms)
   \<and> newRows w1 (saveLoop x e1 p1 sched1 ms w1) = newRows w2 (saveLoop x e2 p2 sched2 ms w2)
   \<and> newRows w1 (snd (startSavingSnapshots x e1 sched1 this w1)) =
       newRows w2 (snd (startSavingSnapshots x e2 sched2 (this\<lparr>filePath := p2, stream := s2\<rparr>) w2))"
  by (simp add: newRows_def saveLoop_appendCalls startSavingSnapshots_appendCalls comp_def
      split: option.splits)





text \<open>
  C9. When the query answers and neither the directory nor the file write fails, each
  token-list script returns without reporting an error, and the file it wrote is the
  header \<open>id,type,availableSince\<close>, a newline, and the lines of the symbols joined by
  newlines, in the order of the answer, each line being the symbol's id, type and
  availableSince separated by commas; split at the newlines, this is the header line
  followed by one line per symbol (for a non-empty answer whose fields hold no newline).
\<close>

theorem token_list_csv_content:
  "(g ''binance-futures'' = Inr d
      \<and> writable e w (binanceOutputDir x dn) (binanceFilePath x dn) \<longrightarrow>
      (\<exists>w' c. checkBinanceSymbolAvailability x e g dn w = Inr w'
         \<and> consoleErr w' = consoleErr w
         \<and> files w' (binanceFilePath x dn) = Some c
         \<and> c = ''id,type,availableSince'' @ [nl] @ join [nl] (map apiLine (availableSymbols d))
         \<and> (availableSymbols d \<noteq> [] \<and> (\<forall>s \<in> set (availableSymbols d). nl \<notin> set (apiLine s))
              \<longrightarrow> split_on nl c = ''id,type,availableSince'' # map apiLine (availableSymbols d))))
   \<and> (g ''bybit'' = Inr d
      \<and> writable e w (bybitOutputDir x dn) (bybitFilePath x dn) \<longrightarrow>
      (\<exists>w' c. checkBybitSymbolAvailability x e g dn w = Inr w'
         \<and> consoleErr w' = consoleErr w
         \<and> files w' (bybitFilePath x dn) = Some c
         \<and> c = ''id,type,availableSince'' @ [nl] @ join [nl] (map apiLine (availableSymbols d))
         \<and> (availableSymbols d \<noteq> [] \<and> (\<forall>s \<in> set (availableSymbols d). nl \<notin> set (apiLine s))
              \<longrightarrow> split_on nl c = ''id,type,availableSince'' # map apiLine (availableSymbols d))))"
proof (intro conjI impI)
  assume a: "g ''binance-futures'' = Inr d
      \<and> writable e w (binanceOutputDir x dn) (binanceFilePath x dn)"
  then obtain w' where
    "tokenListScript x e g dn ''binance-futures'' ''../data/uncleaned/binance_token_list''
        ''binance_token_list.csv'' w = Inr w'"
    "files w' (binanceFilePath x dn) = Some (csvContentOf d)" "consoleErr w' = consoleErr w"
    using tokenListScript_success [of g "''binance-futures''" d e w x dn
        "''../data/uncleaned/binance_token_list''" "''binance_token_list.csv''"]
    by (auto simp: binanceFilePath_def binanceOutputDir_def)
  then show "\<exists>w' c. checkBinanceSymbolAvailability x e g dn w = Inr w'
         \<and> consoleErr w' = consoleErr w
         \<and> files w' (binanceFilePath x dn) = Some c
         \<and> c = ''id,type,availableSince'' @ [nl] @ join [nl] (map apiLine (availableSymbols d))
         \<and> (availableSymbols d \<noteq> [] \<and> (\<forall>s \<in> set (availableSymbols d). nl \<notin> set (apiLine s))
              \<longrightarrow> split_on nl c = ''id,type,availableSince'' # map apiLine (availableSymbols d))"
    using csvContentOf_apiLine [of d] csvContentOf_split [of d]
    by (simp add: checkBinanceSymbolAvailability_def)
next
  assume a: "g ''bybit'' = Inr d
      \<and> writable e w (bybitOutputDir x dn) (bybitFilePath x dn)"
  then obtain w' where
    "tokenListScript x e g dn ''bybit'' ''../data/uncleaned/bybit_token_list''
        ''bybit_token_list.csv'' w = Inr w'"
    "files w' (bybitFilePath x dn) = Some (csvContentOf d)" "consoleErr w' = consoleErr w"
    using tokenListScript_success [of g "''bybit''" d e w x dn
        "''../data/uncleaned/bybit_token_list''" "''bybit_token_list.csv''"]
    by (auto simp: bybitFilePath_def bybitOutputDir_def)
  then show "\<exists>w' c. checkBybitSymbolAvailability x e g dn w = Inr w'
         \<and> consoleErr w' = consoleErr w
         \<and> files w' (bybitFilePath x dn) = Some c
         \<and> c = ''id,type,availableSince'' @ [nl] @ join [nl] (map apiLine (availableSymbols d))
         \<and> (availableSymbols d \<noteq> [] \<and> (\<forall>s \<in> set (availableSymbols d). nl \<notin> set (apiLine s))
              \<longrightarrow> split_on nl c = ''id,type,availableSince'' # map apiLine (availableSymbols d))"
    using csvContentOf_apiLine [of d] csvContentOf_split [of d]
    by (simp add: checkBybitSymbolAvailability_def)
qed

theorem token_list_csv_content_witness:
  "sampleQuery ''binance-futures'' = Inr sampleDetails
   \<and> sampleQuery ''bybit'' = Inr sampleDetails
   \<and> writable sampleEnv world0 (binanceOutputDir sampleExt ''/repo/data_fetch'')
        (binanceFilePath sampleExt ''/repo/data_fetch'')
   \<and> writable sampleEnv world0 (bybitOutputDir sampleExt ''/repo/data_fetch'')
        (bybitFilePath sampleExt ''/repo/data_fetch'')
   \<and> availableSymbols sampleDetails \<noteq> []
   \<and> (\<exists>w' c. checkBinanceSymbolAvailability sampleExt sampleEnv sampleQuery ''/repo/data_fetch'' world0
                 = Inr w'
         \<and> files w' ''/repo/data_fetch/../data/uncleaned/binance_token_list/binance_token_list.csv''
             = Some c
         \<and> split_on nl c =
             [''id,type,availableSince'', ''btcusdt,perpetual,2019-11-17T00:00:00.000Z'',
              ''ethusdt,perpetual,2019-11-27T00:00:00.000Z''])
   \<and> (\<exists>w' c. checkBybitSymbolAvailability sampleExt sampleEnv sampleQuery ''/repo/data_fetch'' world0
                 = Inr w'
         \<and> files w' ''/repo/data_fetch/../data/uncleaned/bybit_token_list/bybit_token_list.csv''
             = Some c
         \<and> split_on nl c =
             [''id,type,availableSince'', ''btcusdt,perpetual,2019-11-17T00:00:00.000Z'',
              ''ethusdt,perpetual,2019-11-27T00:00:00.000Z''])"
proof -
  note t = token_list_csv_content [of sampleQuery sampleDetails sampleEnv world0 sampleExt
      "''/repo/data_fetch''"]
  have h: "sampleQuery ''binance-futures'' = Inr sampleDetails
      \<and> writable sampleEnv world0 (binanceOutputDir sampleExt ''/repo/data_fetch'')
          (binanceFilePath sampleExt ''/repo/data_fetch'')"
    by (simp add: sampleQuery_def writable_def sampleEnv_def)
  have h': "sampleQuery ''bybit'' = Inr sampleDetails
      \<and> writable sampleEnv world0 (bybitOutputDir sampleExt ''/repo/data_fetch'')
          (bybitFilePath sampleExt ''/repo/data_fetch'')"
    by (simp add: sampleQuery_def writable_def sampleEnv_def)
  have n: "availableSymbols sampleDetails \<noteq> []
      \<and> (\<forall>s \<in> set (availableSymbols sampleDetails). nl \<notin> set (apiLine s))"
    by (simp add: sampleDetails_def apiLine_def nl_def)
  have p: "binanceFilePath sampleExt ''/repo/data_fetch'' =
      ''/repo/data_fetch/../data/uncleaned/binance_token_list/binance_token_list.csv''"
    "bybitFilePath sampleExt ''/repo/data_fetch'' =
      ''/repo/data_fetch/../data/uncleaned/bybit_token_list/bybit_token_list.csv''"
    by (simp_all add: binanceFilePath_def binanceOutputDir_def bybitFilePath_def
        bybitOutputDir_def sampleExt_def)
  have l: "map apiLine (availableSymbols sampleDetails) =
      [''btcusdt,perpetual,2019-11-17T00:00:00.000Z'', ''ethusdt,perpetual,2019-11-27T00:00:00.000Z'']"
    by (simp add: sampleDetails_def apiLine_def)
  from t h n
  have 1: "\<exists>w' c. checkBinanceSymbolAvailability sampleExt sampleEnv sampleQuery ''/repo/data_fetch'' world0
                 = Inr w'
         \<and> files w' (binanceFilePath sampleExt ''/repo/data_fetch'') = Some c
         \<and> split_on nl c = ''id,type,availableSince'' # map apiLine (availableSymbols sampleDetails)"
    by blast
  from t h' n
  have 2: "\<exists>w' c. checkBybitSymbolAvailability sampleExt sampleEnv sampleQuery ''/repo/data_fetch'' world0
                 = Inr w'
         \<and> files w' (bybitFilePath sampleExt ''/repo/data_fetch'') = Some c
         \<and> split_on nl c = ''id,type,availableSince'' # map apiLine (availableSymbols sampleDetails)"
    by blast
  from 1 2 h h' n show ?thesis by (simp only: p l) blast
qed

text \<open>
  C10. When the query for the exchange details fails, each token-list script returns
  normally; it has printed one line on the error console and has created no directory
  and no file.
\<close>

theorem fetch_failure_caught_state_unchanged:
  "(g ''binance-futures'' = Inl err \<longrightarrow>
      (\<exists>w'. checkBinanceSymbolAvailability x e g dn w = Inr w'
         \<and> files w' = files w \<and> dirs w' = dirs w \<and> console w' = console w
         \<and> consoleErr w' = consoleErr w @ [''Error fetching Binance exchange details: '' @ err]))
   \<and> (g ''bybit'' = Inl err \<longrightarrow>
      (\<exists>w'. checkBybitSymbolAvailability x e g dn w = Inr w'
         \<and> files w' = files w \<and> dirs w' = dirs w \<and> console w' = console w
         \<and> consoleErr w' = consoleErr w @ [''Error fetching Binance exchange details: '' @ err]))"
  by (simp add: checkBinanceSymbolAvailability_def checkBybitSymbolAvailability_def
      tokenListScript_fetch_fails console_error_def)

theorem fetch_failure_caught_state_unchanged_witness:
  "failingQuery ''binance-futures'' = Inl ''Error: getaddrinfo ENOTFOUND api.tardis.dev''
   \<and> failingQuery ''bybit'' = Inl ''Error: getaddrinfo ENOTFOUND api.tardis.dev''
   \<and> (\<exists>w'. checkBinanceSymbolAvailability sampleExt sampleEnv failingQuery ''/repo/data_fetch'' world0
              = Inr w'
         \<and> files w' = Map.empty \<and> dirs w' = {} \<and> console w' = []
         \<and> consoleErr w' =
             [''Error fetching Binance exchange details: Error: getaddrinfo ENOTFOUND api.tardis.dev''])
   \<and> (\<exists>w'. checkBybitSymbolAvailability sampleExt sampleEnv failingQuery ''/repo/data_fetch'' world0
              = Inr w'
         \<and> files w' = Map.empty \<and> dirs w' = {} \<and> console w' = []
         \<and> consoleErr w' =
             [''Error fetching Binance exchange details: Error: getaddrinfo ENOTFOUND api.tardis.dev''])"
  using fetch_failure_caught_state_unchanged [of failingQuery
      "''Error: getaddrinfo ENOTFOUND api.tardis.dev''" sampleExt sampleEnv "''/repo/data_fetch''" world0]
  by (simp add: failingQuery_def world0_def)

end

